theory Spec2Isabelle
  imports Main
begin

section \<open>Data model\<close>

text \<open>
  The combinators of the JSON checker (\<^verbatim>\<open>object\<close>, \<^verbatim>\<open>record\<close>, \<^verbatim>\<open>opt\<close>,
  \<^verbatim>\<open>deprecated\<close>, \<^verbatim>\<open>dispatch\<close>, \<^verbatim>\<open>pick\<close>, \<^verbatim>\<open>when\<close>, \<^verbatim>\<open>extract\<close>,
  \<^verbatim>\<open>having\<close>) are embedded as HOL functions. Nodes, ranges, the diagnostic sink and
  the message catalogue belong to other packages; only the parts the combinators touch
  are modelled.
\<close>

subsection \<open>Ranges and diagnostics\<close>

record Range =
  start :: int
  end' :: int

text \<open>
  Modelled from the spec: \<^verbatim>\<open>Range\<close> of the core package is not part of the sources.
  A range is a pair of integer offsets; \<^verbatim>\<open>Range.create(s, e)\<close> builds it.
\<close>

definition Range_create :: "int \<Rightarrow> int \<Rightarrow> Range" where
  "Range_create s e = \<lparr>start = s, end' = e\<rparr>"

datatype ErrorSeverity = Hint | Information | Warning | Error

record diagnostic =
  message :: string
  anchor :: Range
  severity :: ErrorSeverity
  info :: "string list"

text \<open>
  Modelled from the spec: the diagnostic sink \<^verbatim>\<open>ctx.err\<close> is
  \<^verbatim>\<open>report(message, anchor, severity?, tags?)\<close> with default severity Error; an anchor
  given as a node stands for that node's range. The sink only grows, so a checker is
  modelled as returning the diagnostics it reports, in the order of the calls.
\<close>

definition report :: "string \<Rightarrow> Range \<Rightarrow> ErrorSeverity option \<Rightarrow> string list \<Rightarrow> diagnostic" where
  "report msg rng sev tags =
     \<lparr>message = msg, anchor = rng,
      severity = (case sev of None \<Rightarrow> Error | Some s \<Rightarrow> s), info = tags\<rparr>"

subsection \<open>Nodes\<close>

datatype JsonExpectation =
  JsonExpectation (etype: string) (typedoc: string)
    (fields: "JsonField list option") (ekeys: "JsonExpectation list option")
and JsonField =
  JsonField (fkey: string) (fvalue: "JsonExpectation list option") (fopt: bool) (fdeprecated: bool)

record JsonStringNode =
  srange :: Range
  svalue :: string
  sexpectation :: "JsonExpectation list option"
  hover :: "string option"

text \<open>
  A node carries its kind, its range and the writable expectation slot. Object nodes
  hold the ordered pairs; a pair has an optional key node and an optional value node.
  Kinds the combinators never look into (numbers, booleans, arrays) are \<open>JsonOther\<close>
  with their type tag.
\<close>

datatype JsonNode =
    JsonObject Range "JsonExpectation list option" "PairNode list"
  | JsonString JsonStringNode
  | JsonNull Range "JsonExpectation list option"
  | JsonOther string Range "JsonExpectation list option"
and PairNode =
    PairNode (key: "JsonStringNode option") (pvalue: "JsonNode option")

fun node_range :: "JsonNode \<Rightarrow> Range" where
  "node_range (JsonObject r e ps) = r"
| "node_range (JsonString s) = srange s"
| "node_range (JsonNull r e) = r"
| "node_range (JsonOther t r e) = r"

fun node_expectation :: "JsonNode \<Rightarrow> JsonExpectation list option" where
  "node_expectation (JsonObject r e ps) = e"
| "node_expectation (JsonString s) = sexpectation s"
| "node_expectation (JsonNull r e) = e"
| "node_expectation (JsonOther t r e) = e"

text \<open>The assignment \<^verbatim>\<open>node.expectation = e\<close>.\<close>

fun set_expectation :: "JsonExpectation list option \<Rightarrow> JsonNode \<Rightarrow> JsonNode" where
  "set_expectation e (JsonObject r e0 ps) = JsonObject r e ps"
| "set_expectation e (JsonString s) = JsonString (s\<lparr>sexpectation := e\<rparr>)"
| "set_expectation e (JsonNull r e0) = JsonNull r e"
| "set_expectation e (JsonOther t r e0) = JsonOther t r e"

text \<open>\<^verbatim>\<open>JsonObjectNode.is(node)\<close> and \<^verbatim>\<open>node.children\<close>.\<close>

fun is_object :: "JsonNode \<Rightarrow> bool" where
  "is_object (JsonObject r e ps) = True"
| "is_object n = False"

fun children :: "JsonNode \<Rightarrow> PairNode list" where
  "children (JsonObject r e ps) = ps"
| "children n = []"

fun set_children :: "PairNode list \<Rightarrow> JsonNode \<Rightarrow> JsonNode" where
  "set_children ps (JsonObject r e ps0) = JsonObject r e ps"
| "set_children ps n = n"

text \<open>\<^verbatim>\<open>node.children.map(n => n.key?.value)\<close>: \<open>None\<close> is \<^verbatim>\<open>undefined\<close>.\<close>

definition key_value :: "PairNode \<Rightarrow> string option" where
  "key_value p = map_option svalue (key p)"

definition given_keys :: "JsonNode \<Rightarrow> string option list" where
  "given_keys node = map key_value (children node)"

subsection \<open>Contexts, checkers and property specs\<close>

record JsonCheckerContext =
  depth :: "int option"
  context' :: string

text \<open>
  A checker mutates the node it is given (expectation and hover slots) and reports to
  the sink. The model returns the node after the call and the diagnostics reported.
  Checkers are closures and may read and write other mutable objects (the case tables
  of \<^verbatim>\<open>pick\<close>); that part of the world is the store \<open>'h\<close>, threaded through.
  The checkers of the source are \<^verbatim>\<open>async\<close> functions without \<^verbatim>\<open>await\<close>: called
  without being awaited, they still run to completion before the caller goes on. Calls
  are modelled accordingly, also for the checkers the combinators are given.
\<close>

type_synonym 'h JsonChecker =
  "JsonNode \<Rightarrow> JsonCheckerContext \<Rightarrow> 'h \<Rightarrow> JsonNode \<times> diagnostic list \<times> 'h"


abbreviation out_reports :: "'a \<times> 'b \<times> 'h \<Rightarrow> 'b" where
  "out_reports r \<equiv> fst (snd r)"

abbreviation out_store :: "'a \<times> 'b \<times> 'h \<Rightarrow> 'h" where
  "out_store r \<equiv> snd (snd r)"

text \<open>
  \<^verbatim>\<open>CheckerProperty = JsonChecker | ComplexProperty\<close>; the optional fields of a
  complex property are \<open>None\<close> when absent.
\<close>

datatype 'c CheckerProperty =
    Bare 'c
  | Complex 'c "bool option" "bool option" "string option"

fun isComplex :: "'c CheckerProperty \<Rightarrow> bool" where
  "isComplex (Bare c) = False"
| "isComplex (Complex c o' d x) = True"

text \<open>\<^verbatim>\<open>isComplex(p) ? p.checker : p\<close>.\<close>

fun checker_of :: "'c CheckerProperty \<Rightarrow> 'c" where
  "checker_of (Bare c) = c"
| "checker_of (Complex c o' d x) = c"

text \<open>\<^verbatim>\<open>isComplex(p) ? p.opt : undefined\<close>, and the same for the other fields.\<close>

fun opt_of :: "'c CheckerProperty \<Rightarrow> bool option" where
  "opt_of (Bare c) = None"
| "opt_of (Complex c o' d x) = o'"

fun deprecated_of :: "'c CheckerProperty \<Rightarrow> bool option" where
  "deprecated_of (Bare c) = None"
| "deprecated_of (Complex c o' d x) = d"

fun context_of :: "'c CheckerProperty \<Rightarrow> string option" where
  "context_of (Bare c) = None"
| "context_of (Complex c o' d x) = x"

text \<open>Truthiness of an optional boolean and of an optional string.\<close>

definition truthy :: "bool option \<Rightarrow> bool" where
  "truthy b = (b = Some True)"

definition opt :: "'c \<Rightarrow> 'c CheckerProperty" where
  "opt checker = Complex checker (Some True) None None"

definition deprecated :: "'c \<Rightarrow> 'c CheckerProperty" where
  "deprecated checker = Complex checker None (Some True) None"

type_synonym 'c CheckerRecord = "(string \<times> 'c CheckerProperty) list"

subsection \<open>External collaborators\<close>

text \<open>
  Modelled from the spec: the message catalogue (\<^verbatim>\<open>localize\<close>, \<^verbatim>\<open>localeQuote\<close>),
  the helper \<^verbatim>\<open>expectation\<close> of \<^verbatim>\<open>./util\<close> and \<^verbatim>\<open>JsonStringExpectation.is\<close>
  are not part of the sources; they are parameters. The catalogue is a key-to-text
  function; a parameter of \<^verbatim>\<open>localize\<close> is a string or an array of strings. The
  helper \<^verbatim>\<open>expectation(checker, ctx)\<close> calls a checker to harvest its expectation
  without diagnostic side effects: its type gives it the store, not the caller's sink.
\<close>

datatype l10n_param = Str string | Arr "string list"

record 'h externals =
  localize :: "string \<Rightarrow> l10n_param list \<Rightarrow> string"
  localeQuote :: "string \<Rightarrow> string"
  expectation :: "'h JsonChecker \<Rightarrow> JsonCheckerContext \<Rightarrow> 'h \<Rightarrow> JsonExpectation list option \<times> 'h"
  is_string_expectation :: "JsonExpectation \<Rightarrow> bool"

section \<open>The structural object checker\<close>

text \<open>The three call shapes of \<^verbatim>\<open>object\<close>: no argument, a key array with a value
  function, a key checker with a value function. The value function is a closure; what
  it returns may depend on the store at the time of the call.\<close>

datatype 'h object_args =
    NoArgs
  | KeyList "string list" "string \<Rightarrow> 'h \<Rightarrow> 'h JsonChecker CheckerProperty"
  | KeyChecker "'h JsonChecker" "string \<Rightarrow> 'h \<Rightarrow> 'h JsonChecker CheckerProperty"

text \<open>\<^verbatim>\<open>!ctx.depth || ctx.depth <= 0\<close>.\<close>

definition depth_guard :: "JsonCheckerContext \<Rightarrow> bool" where
  "depth_guard ctx = (case depth ctx of None \<Rightarrow> True | Some d \<Rightarrow> d = 0 \<or> d \<le> 0)"

text \<open>The \<^verbatim>\<open>keys.map\<close> that fills \<^verbatim>\<open>fields\<close>, one field per schema key.\<close>

fun field_expectations ::
  "'h externals \<Rightarrow> (string \<Rightarrow> 'h \<Rightarrow> 'h JsonChecker CheckerProperty) \<Rightarrow> JsonCheckerContext \<Rightarrow>
   string list \<Rightarrow> 'h \<Rightarrow> JsonField list \<times> 'h" where
  "field_expectations ext values ctx [] h = ([], h)"
| "field_expectations ext values ctx (k # ks) h =
     (let prop = values k h;
          (e, h1) = expectation ext (checker_of prop) ctx h;
          field = JsonField k e
                    (isComplex prop \<and> (truthy (opt_of prop) \<or> truthy (deprecated_of prop)))
                    (isComplex prop \<and> truthy (deprecated_of prop));
          (fs, h2) = field_expectations ext values ctx ks h1
      in (field # fs, h2))"

text \<open>The first part of the checker: the expectation written to the node.\<close>

definition object_expectation ::
  "'h externals \<Rightarrow> 'h object_args \<Rightarrow> JsonCheckerContext \<Rightarrow> 'h \<Rightarrow> JsonExpectation list option \<times> 'h" where
  "object_expectation ext args ctx h =
     (if depth_guard ctx then
        (case args of
           KeyList keys values \<Rightarrow>
             (let (fs, h1) = field_expectations ext values ctx keys h
              in (Some [JsonExpectation ''json:object'' ''Object'' (Some fs) None], h1))
         | KeyChecker keys values \<Rightarrow>
             (let (e, h1) = expectation ext keys ctx h
              in (Some [JsonExpectation ''json:object'' ''Object'' None
                          (map_option (filter (is_string_expectation ext)) e)], h1))
         | NoArgs \<Rightarrow> (Some [JsonExpectation ''json:object'' ''Object'' None None], h))
      else (Some [JsonExpectation ''json:object'' ''Object'' None None], h))"

text \<open>The \<^verbatim>\<open>keys.forEach\<close> that reports the missing properties.\<close>

definition missing_diagnostic :: "'h externals \<Rightarrow> JsonNode \<Rightarrow> string \<Rightarrow> diagnostic" where
  "missing_diagnostic ext node k =
     report (localize ext ''json.checker.property.missing'' [Str (localeQuote ext k)])
       (Range_create (start (node_range node)) (start (node_range node) + 1)) None []"

definition report_missing ::
  "'h externals \<Rightarrow> string list \<Rightarrow> (string \<Rightarrow> 'h \<Rightarrow> 'h JsonChecker CheckerProperty) \<Rightarrow>
   string option list \<Rightarrow> JsonNode \<Rightarrow> 'h \<Rightarrow> diagnostic list" where
  "report_missing ext keys values givenKeys node h =
     concat (map (\<lambda>k.
       (let value = values k h in
        if isComplex value \<and> (truthy (opt_of value) \<or> truthy (deprecated_of value)) then []
        else if Some k \<notin> set givenKeys then [missing_diagnostic ext node k]
        else [])) keys)"

text \<open>\<^verbatim>\<open>propNode.expectation?.map(e => e.typedoc).join(' | ')\<close> inside a template
  string: an absent expectation prints as \<^verbatim>\<open>undefined\<close>.\<close>

fun join :: "string \<Rightarrow> string list \<Rightarrow> string" where
  "join sep [] = []"
| "join sep [x] = x"
| "join sep (x # y # ys) = x @ sep @ join sep (y # ys)"

definition typedocs :: "JsonExpectation list option \<Rightarrow> string" where
  "typedocs e = (case e of None \<Rightarrow> ''undefined'' | Some es \<Rightarrow> join '' | '' (map typedoc es))"

definition hover_text :: "string \<Rightarrow> JsonExpectation list option \<Rightarrow> string \<Rightarrow> string" where
  "hover_text context e doc =
     ''```typescript'' @ [CHR 0x0A] @ context @ '': '' @ typedocs e @ [CHR 0x0A] @ ''```''
     @ (if doc \<noteq> [] then [CHR 0x0A] @ ''******'' @ [CHR 0x0A] @ doc else [])"

text \<open>The documentation path of a property: the context, the property's own override
  if it has a non-empty one, the key.\<close>

definition property_context :: "JsonCheckerContext \<Rightarrow> 'c CheckerProperty \<Rightarrow> string \<Rightarrow> string" where
  "property_context ctx value k =
     context' ctx @ ''.''
     @ (case context_of value of
          Some c \<Rightarrow> (if isComplex value \<and> c \<noteq> [] then c @ ''.'' else [])
        | None \<Rightarrow> [])
     @ k"

definition unknown_diagnostic :: "'h externals \<Rightarrow> JsonStringNode \<Rightarrow> diagnostic" where
  "unknown_diagnostic ext k =
     report (localize ext ''json.checker.property.unknown'' [Str (localeQuote ext (svalue k))])
       (srange k) (Some Warning) []"

definition deprecated_diagnostic :: "'h externals \<Rightarrow> JsonStringNode \<Rightarrow> diagnostic" where
  "deprecated_diagnostic ext k =
     report (localize ext ''json.checker.property.deprecated'' [Str (localeQuote ext (svalue k))])
       (srange k) (Some Hint) [''deprecated'']"

text \<open>The value node a property's checker runs on: the pair's value, or a synthetic
  null node when the pair has none.\<close>

definition prop_node :: "PairNode \<Rightarrow> JsonNode" where
  "prop_node prop = (case pvalue prop of Some v \<Rightarrow> v | None \<Rightarrow> JsonNull (Range_create 0 0) None)"

text \<open>The body of the \<^verbatim>\<open>forEach\<close> over the given pairs in fixed-key mode; \<open>k\<close> is
  the key node of the pair.\<close>

definition check_given ::
  "'h externals \<Rightarrow> string list \<Rightarrow> (string \<Rightarrow> 'h \<Rightarrow> 'h JsonChecker CheckerProperty) \<Rightarrow>
   JsonCheckerContext \<Rightarrow> PairNode \<Rightarrow> JsonStringNode \<Rightarrow> 'h \<Rightarrow> PairNode \<times> diagnostic list \<times> 'h" where
  "check_given ext keys values ctx prop k h =
     (if svalue k \<notin> set keys then (prop, [unknown_diagnostic ext k], h)
      else
        (let value = values (svalue k) h;
             dep = (if isComplex value \<and> truthy (deprecated_of value)
                    then [deprecated_diagnostic ext k] else []);
             context = property_context ctx value (svalue k);
             doc = localize ext (''json.doc.'' @ context) [];
             (propNode, ds, h1) = checker_of value (prop_node prop) (ctx\<lparr>context' := context\<rparr>) h
         in (PairNode (Some (k\<lparr>hover := Some (hover_text context (node_expectation propNode) doc)\<rparr>))
               (map_option (\<lambda>v. propNode) (pvalue prop)),
             dep @ ds, h1)))"

text \<open>The body of the \<^verbatim>\<open>forEach\<close> in dynamic-key mode. The key checker mutates the key
  node, which stays the key of the pair.\<close>

definition check_dynamic ::
  "'h JsonChecker \<Rightarrow> (string \<Rightarrow> 'h \<Rightarrow> 'h JsonChecker CheckerProperty) \<Rightarrow>
   JsonCheckerContext \<Rightarrow> PairNode \<Rightarrow> JsonStringNode \<Rightarrow> 'h \<Rightarrow> PairNode \<times> diagnostic list \<times> 'h" where
  "check_dynamic keys values ctx prop k h =
     (let (kn, ds1, h1) = keys (JsonString k) ctx h;
          k1 = (case kn of JsonString s \<Rightarrow> s | _ \<Rightarrow> k)
      in (case pvalue prop of
            None \<Rightarrow> (PairNode (Some k1) None, ds1, h1)
          | Some v \<Rightarrow>
              (let value = values (svalue k1) h1;
                   (v1, ds2, h2) = checker_of value v ctx h1
               in (PairNode (Some k1) (Some v1), ds1 @ ds2, h2))))"

text \<open>\<^verbatim>\<open>node.children.filter(p => p.key).forEach(body)\<close>: the pairs with a key are
  visited in order; the result holds the pairs after the visit, the diagnostics of each
  visit, and the store.\<close>

fun forEach_keyed ::
  "(PairNode \<Rightarrow> JsonStringNode \<Rightarrow> 'h \<Rightarrow> PairNode \<times> diagnostic list \<times> 'h) \<Rightarrow>
   PairNode list \<Rightarrow> 'h \<Rightarrow> PairNode list \<times> diagnostic list list \<times> 'h" where
  "forEach_keyed body [] h = ([], [], h)"
| "forEach_keyed body (p # ps) h =
     (case key p of
        None \<Rightarrow> (let (ps1, dss, h1) = forEach_keyed body ps h in (p # ps1, dss, h1))
      | Some k \<Rightarrow>
          (let (p1, ds, h1) = body p k h;
               (ps1, dss, h2) = forEach_keyed body ps h1
           in (p1 # ps1, ds # dss, h2)))"

definition type_mismatch :: "'h externals \<Rightarrow> JsonNode \<Rightarrow> diagnostic" where
  "type_mismatch ext node =
     report (localize ext ''expected'' [Str (localize ext ''object'' [])]) (node_range node) None []"

definition object :: "'h externals \<Rightarrow> 'h object_args \<Rightarrow> 'h JsonChecker" where
  "object ext args node ctx h =
     (let (e, h1) = object_expectation ext args ctx h;
          node1 = set_expectation e node
      in if \<not> is_object node1 then (node1, [type_mismatch ext node1], h1)
         else
           (case args of
              KeyList keys values \<Rightarrow>
                (let givenKeys = given_keys node1;
                     missing = report_missing ext keys values givenKeys node1 h1;
                     (ps, dss, h2) = forEach_keyed (check_given ext keys values ctx) (children node1) h1
                 in (set_children ps node1, missing @ concat dss, h2))
            | KeyChecker keys values \<Rightarrow>
                (let (ps, dss, h2) = forEach_keyed (check_dynamic keys values ctx) (children node1) h1
                 in (set_children ps node1, concat dss, h2))
            | NoArgs \<Rightarrow> (node1, [], h1)))"

text \<open>\<^verbatim>\<open>record(properties)\<close> is \<^verbatim>\<open>object(Object.keys(properties), key => properties[key])\<close>.
  The argument is a reference: \<open>properties h\<close> is what the record object holds in
  store \<open>h\<close>, in the order of \<^verbatim>\<open>Object.keys\<close>. The keys are taken when the checker is
  built (store \<open>h0\<close>), the entries are read when the checker runs. The checker asks
  for entries of those keys only; \<open>lookup_property\<close> answers with a checker that does
  nothing for any other key.\<close>

definition lookup_property :: "'h JsonChecker CheckerRecord \<Rightarrow> string \<Rightarrow> 'h JsonChecker CheckerProperty" where
  "lookup_property properties k =
     (case map_of properties k of Some p \<Rightarrow> p | None \<Rightarrow> Bare (\<lambda>node ctx h. (node, [], h)))"

definition record' :: "'h externals \<Rightarrow> ('h \<Rightarrow> 'h JsonChecker CheckerRecord) \<Rightarrow> 'h \<Rightarrow> 'h JsonChecker" where
  "record' ext properties h0 =
     object ext (KeyList (map fst (properties h0)) (\<lambda>k h. lookup_property (properties h) k))"

section \<open>Variant resolvers\<close>

subsection \<open>\<^verbatim>\<open>dispatch\<close> and \<^verbatim>\<open>extract\<close>\<close>

text \<open>\<^verbatim>\<open>Array.prototype.findIndex\<close> (\<open>-1\<close> when nothing matches) and indexing, which
  gives \<^verbatim>\<open>undefined\<close> out of range.\<close>

fun findIndex :: "('a \<Rightarrow> bool) \<Rightarrow> 'a list \<Rightarrow> int" where
  "findIndex P [] = - 1"
| "findIndex P (x # xs) =
     (if P x then 0 else (let i = findIndex P xs in if i < 0 then - 1 else i + 1))"

definition at_index :: "'a list \<Rightarrow> int \<Rightarrow> 'a option" where
  "at_index xs i = (if 0 \<le> i \<and> i < int (length xs) then Some (xs ! nat i) else None)"

text \<open>\<^verbatim>\<open>p?.value?.type === 'json:string' ? p.value.value : undefined\<close>.\<close>

fun string_value :: "PairNode option \<Rightarrow> string option" where
  "string_value (Some (PairNode k (Some (JsonString s)))) = Some (svalue s)"
| "string_value p = None"

text \<open>The selector of \<^verbatim>\<open>dispatch\<close> is a closure: it returns a checker and may change
  the store (a selector that calls \<^verbatim>\<open>pick\<close> does).\<close>

definition dispatch ::
  "'h externals \<Rightarrow> string \<Rightarrow> (string option \<Rightarrow> PairNode list \<Rightarrow> 'h \<Rightarrow> 'h JsonChecker \<times> 'h) \<Rightarrow>
   'h JsonChecker" where
  "dispatch ext keyName values node ctx h =
     (if \<not> is_object node then (node, [type_mismatch ext node], h)
      else
        (let dispatcherIndex = findIndex (\<lambda>p. key_value p = Some keyName) (children node);
             dispatcher = at_index (children node) dispatcherIndex;
             value = string_value dispatcher;
             (checker, h1) = values value (children node) h
         in checker node ctx h1))"

definition extract' :: "string \<Rightarrow> PairNode list \<Rightarrow> string option" where
  "extract' value ps = string_value (find (\<lambda>p. key_value p = Some value) ps)"

subsection \<open>\<^verbatim>\<open>pick\<close> and \<^verbatim>\<open>when\<close>\<close>

text \<open>\<^verbatim>\<open>value.replace(/^minecraft:/, '')\<close>: one leading prefix is removed.\<close>

definition strip_namespace :: "string \<Rightarrow> string" where
  "strip_namespace v = (if take 10 v = ''minecraft:'' then drop 10 v else v)"

text \<open>
  \<^verbatim>\<open>pick\<close> assigns to the entries of the record it finds in \<^verbatim>\<open>cases\<close>, so the
  records of a case table are objects in a store: \<open>cases\<close> maps a case name to the
  address of its record, the store maps an address to the entries of the record (in
  the order of \<^verbatim>\<open>Object.keys\<close>, keys distinct). The result is a reference: a new
  empty record, or the address of the record of the case. Only own keys of
  \<^verbatim>\<open>cases\<close> are looked up.
\<close>

type_synonym 'c store = "nat \<Rightarrow> 'c CheckerRecord"

datatype record_ref = EmptyRecord | Stored nat

definition deref :: "'c store \<Rightarrow> record_ref \<Rightarrow> 'c CheckerRecord" where
  "deref h r = (case r of EmptyRecord \<Rightarrow> [] | Stored a \<Rightarrow> h a)"

text \<open>The value assigned to \<^verbatim>\<open>properties[key]\<close>.\<close>

definition rewrite_property :: "string \<Rightarrow> 'c CheckerProperty \<Rightarrow> 'c CheckerProperty" where
  "rewrite_property name p = Complex (checker_of p) (opt_of p) (deprecated_of p) (Some name)"

definition pick :: "string option \<Rightarrow> (string \<times> nat) list \<Rightarrow> 'c store \<Rightarrow> record_ref \<times> 'c store" where
  "pick value cases h =
     (case value of
        None \<Rightarrow> (EmptyRecord, h)
      | Some v \<Rightarrow>
          (case map_of cases (strip_namespace v) of
             None \<Rightarrow> (EmptyRecord, h)
           | Some properties \<Rightarrow>
               (Stored properties,
                h(properties :=
                    map (\<lambda>(k, p). (k, rewrite_property (strip_namespace v) p)) (h properties)))))"

text \<open>\<^verbatim>\<open>when\<close> returns one of its arguments or a new empty record; \<open>None\<close> for
  \<open>notProperties\<close> is the omitted argument.\<close>

definition when' ::
  "string option \<Rightarrow> string list \<Rightarrow> 'c CheckerRecord \<Rightarrow> 'c CheckerRecord option \<Rightarrow> 'c CheckerRecord" where
  "when' value values properties notProperties =
     (case value of
        None \<Rightarrow> []
      | Some v \<Rightarrow>
          (if strip_namespace v \<notin> set values
           then (case notProperties of None \<Rightarrow> [] | Some r \<Rightarrow> r)
           else properties))"

subsection \<open>\<^verbatim>\<open>having\<close>\<close>

text \<open>A case of \<^verbatim>\<open>having\<close> is a record or a function that produces one.\<close>

datatype 'c case_branch = Direct "'c CheckerRecord" | Producer "unit \<Rightarrow> 'c CheckerRecord"



section \<open>Notions used in the statements\<close>

text \<open>A property that the missing-property pass skips: flagged optional or deprecated.\<close>

definition not_required :: "'c CheckerProperty \<Rightarrow> bool" where
  "not_required p = (isComplex p \<and> (truthy (opt_of p) \<or> truthy (deprecated_of p)))"

text \<open>The hover texts of the key nodes of a tree, in document order.\<close>

fun key_hovers :: "JsonNode \<Rightarrow> string option list"
  and pair_hovers :: "PairNode \<Rightarrow> string option list" where
  "key_hovers (JsonObject r e ps) = concat (map pair_hovers ps)"
| "key_hovers (JsonString s) = []"
| "key_hovers (JsonNull r e) = []"
| "key_hovers (JsonOther t r e) = []"
| "pair_hovers (PairNode k v) =
     (case k of None \<Rightarrow> [] | Some s \<Rightarrow> [hover s])
     @ (case v of None \<Rightarrow> [] | Some n \<Rightarrow> key_hovers n)"



text \<open>
  A store cannot hold checkers that are functions of the store itself, so the records
  of a case table name their checkers, and \<open>env\<close> gives the checker of a name.
  \<open>record_of_pick\<close> is the selector \<^verbatim>\<open>value => record(pick(value, cases))\<close>.
\<close>

definition resolve :: "(nat \<Rightarrow> 'h JsonChecker) \<Rightarrow> nat CheckerRecord \<Rightarrow> 'h JsonChecker CheckerRecord" where
  "resolve env r = map (\<lambda>(k, p). (k, map_CheckerProperty env p)) r"

definition record_of_pick ::
  "nat store externals \<Rightarrow> (nat \<Rightarrow> nat store JsonChecker) \<Rightarrow> (string \<times> nat) list \<Rightarrow>
   string option \<Rightarrow> PairNode list \<Rightarrow> nat store \<Rightarrow> nat store JsonChecker \<times> nat store" where
  "record_of_pick ext env cases value ps h =
     (let (r, h1) = pick value cases h
      in (record' ext (\<lambda>h. resolve env (deref h r)) h1, h1))"

text \<open>
  Two stores are similar when they hold the same records up to what \<^verbatim>\<open>pick\<close>
  overwrites: the same keys with the same checker, optional flag and deprecated flag.
  They are related on a set of addresses when they are similar and equal at those
  addresses.
\<close>

definition similar :: "'c store \<Rightarrow> 'c store \<Rightarrow> bool" where
  "similar h h' =
     (\<forall>a. map (\<lambda>(k, p). (k, checker_of p, opt_of p, deprecated_of p)) (h a) =
          map (\<lambda>(k, p). (k, checker_of p, opt_of p, deprecated_of p)) (h' a))"

definition related :: "nat set \<Rightarrow> 'c store \<Rightarrow> 'c store \<Rightarrow> bool" where
  "related A h h' = (similar h h' \<and> (\<forall>a \<in> A. h a = h' a))"








section \<open>Example inputs\<close>

text \<open>A message catalogue without documentation entries, a quoting function, the
  expectation helper run on a placeholder node one level deeper, and a leaf checker
  that accepts anything and expects a string.\<close>

definition example_externals :: "'h externals" where
  "example_externals =
     \<lparr>localize = (\<lambda>k ps. if take 9 k = ''json.doc.'' then []
                          else k @ concat (map (\<lambda>p. case p of Str s \<Rightarrow> '' '' @ s
                                                         | Arr ss \<Rightarrow> '' '' @ join '','' ss) ps)),
      localeQuote = (\<lambda>s. [CHR 0x22] @ s @ [CHR 0x22]),
      expectation = (\<lambda>checker ctx h.
         (let (n, ds, h1) = checker (JsonNull (Range_create 0 0) None)
                              (ctx\<lparr>depth := Some ((case depth ctx of None \<Rightarrow> 0 | Some d \<Rightarrow> d) + 1)\<rparr>) h
          in (node_expectation n, h1))),
      is_string_expectation = (\<lambda>e. etype e = ''json:string'')\<rparr>"

definition string_leaf :: "'h JsonChecker" where
  "string_leaf node ctx h =
     (set_expectation (Some [JsonExpectation ''json:string'' ''String'' None None]) node, [], h)"

definition str :: "int \<Rightarrow> string \<Rightarrow> JsonStringNode" where
  "str s v = \<lparr>srange = Range_create s (s + int (length v) + 2), svalue = v,
              sexpectation = None, hover = None\<rparr>"

definition root_context :: JsonCheckerContext where
  "root_context = \<lparr>depth = None, context' = ''root''\<rparr>"

text \<open>The schema \<^verbatim>\<open>{a: leaf, b: opt(leaf), c: deprecated(leaf)}\<close> and the input
  \<^verbatim>\<open>{"c": "v", "z"}\<close> (the second pair has no value).\<close>

definition example_keys :: "string list" where
  "example_keys = [''a'', ''b'', ''c'']"

definition example_values :: "string \<Rightarrow> unit \<Rightarrow> unit JsonChecker CheckerProperty" where
  "example_values k h =
     (if k = ''b'' then opt string_leaf
      else if k = ''c'' then deprecated string_leaf
      else Bare string_leaf)"

definition example_node :: JsonNode where
  "example_node =
     JsonObject (Range_create 0 20) None
       [PairNode (Some (str 1 ''c'')) (Some (JsonString (str 6 ''v''))),
        PairNode (Some (str 10 ''z'')) None]"

text \<open>A schema whose property \<^verbatim>\<open>c\<close> must be an object.\<close>

definition nested_values :: "string \<Rightarrow> unit \<Rightarrow> unit JsonChecker CheckerProperty" where
  "nested_values k h = Bare (object example_externals NoArgs)"

text \<open>The input \<^verbatim>\<open>{"type": "minecraft:foo"}\<close> and a selector built with
  \<^verbatim>\<open>when\<close>.\<close>

definition typed_node :: JsonNode where
  "typed_node =
     JsonObject (Range_create 0 30) None
       [PairNode (Some (str 1 ''type'')) (Some (JsonString (str 9 ''minecraft:foo'')))]"

definition example_selector ::
  "string option \<Rightarrow> PairNode list \<Rightarrow> unit \<Rightarrow> unit JsonChecker \<times> unit" where
  "example_selector value ps h =
     (record' example_externals
        (\<lambda>h. (''type'', Bare string_leaf) # when' value [''foo''] [(''x'', Bare string_leaf)] None) h,
      h)"

text \<open>Cases of \<^verbatim>\<open>having\<close> with the marker keys \<^verbatim>\<open>a\<close> and \<^verbatim>\<open>b\<close>; checkers
  are named by numbers.\<close>

definition example_cases :: "(string \<times> nat case_branch) list" where
  "example_cases =
     [(''a'', Direct [(''a'', Bare 0)]),
      (''b'', Producer (\<lambda>u. [(''b'', opt 1), (''c'', Bare 2)]))]"

definition keys_node :: "string list \<Rightarrow> JsonNode" where
  "keys_node ks = JsonObject (Range_create 7 20) None (map (\<lambda>k. PairNode (Some (str 8 k)) None) ks)"

text \<open>
  A record \<^verbatim>\<open>shared = {x: leaf}\<close> at address 0 that is the schema of property
  \<^verbatim>\<open>a\<close> and also the case \<^verbatim>\<open>foo\<close> of the table picked from for property
  \<^verbatim>\<open>b\<close>:
  \<^verbatim>\<open>record({a: record(shared), b: dispatch('type', t => record(pick(t, {foo: shared})))})\<close>,
  and the input \<^verbatim>\<open>{"a": {"x": "s"}, "b": {"type": "foo"}}\<close>.
\<close>

definition shared_store :: "nat store" where
  "shared_store = (\<lambda>a. if a = 0 then [(''x'', Bare 0)] else [])"

definition picking_checker :: "nat store JsonChecker" where
  "picking_checker =
     dispatch example_externals ''type''
       (record_of_pick example_externals (\<lambda>c. string_leaf) [(''foo'', 0)])"


definition picking_tree :: JsonNode where
  "picking_tree =
     JsonObject (Range_create 21 39) None
       [PairNode (Some (str 22 ''type'')) (Some (JsonString (str 29 ''foo'')))]"




section \<open>Auxiliary facts\<close>

lemmas example_defs =
  example_externals_def string_leaf_def str_def root_context_def example_keys_def
  example_values_def example_node_def nested_values_def typed_node_def example_selector_def
  example_cases_def keys_node_def shared_store_def picking_checker_def picking_tree_def

lemmas checker_defs =
  object_expectation_def depth_guard_def opt_def deprecated_def not_required_def truthy_def
  given_keys_def key_value_def check_given_def unknown_diagnostic_def deprecated_diagnostic_def
  missing_diagnostic_def type_mismatch_def report_def Range_create_def property_context_def
  prop_node_def hover_text_def typedocs_def lookup_property_def

lemma is_object_set_expectation [simp]: "is_object (set_expectation e node) = is_object node"
  by (cases node) auto

lemma node_range_set_expectation [simp]: "node_range (set_expectation e node) = node_range node"
  by (cases node) auto

lemma children_set_expectation [simp]: "children (set_expectation e node) = children node"
  by (cases node) auto

lemma node_expectation_set_expectation [simp]: "node_expectation (set_expectation e node) = e"
  by (cases node) auto

lemma given_keys_set_expectation [simp]: "given_keys (set_expectation e node) = given_keys node"
  by (simp add: given_keys_def)

lemma missing_diagnostic_set_expectation [simp]:
  "missing_diagnostic ext (set_expectation e node) k = missing_diagnostic ext node k"
  by (simp add: missing_diagnostic_def)

text \<open>The missing-property pass reports the required keys that are not given, in the
  order of the schema.\<close>

lemma report_missing_filter:
  "report_missing ext keys values givenKeys node h =
     map (missing_diagnostic ext node)
       (filter (\<lambda>k. \<not> not_required (values k h) \<and> Some k \<notin> set givenKeys) keys)"
  unfolding report_missing_def
  by (induction keys) (auto simp: not_required_def Let_def)

lemma report_missing_set_expectation [simp]:
  "report_missing ext keys values givenKeys (set_expectation e node) h =
   report_missing ext keys values givenKeys node h"
  by (simp add: report_missing_filter)

text \<open>The visit of the pairs is sequential: the pairs after a prefix are visited in the
  store the prefix left.\<close>

lemma forEach_keyed_append:
  "forEach_keyed body (ps @ qs) h =
     (let (ps1, dss1, h1) = forEach_keyed body ps h;
          (qs1, dss2, h2) = forEach_keyed body qs h1
      in (ps1 @ qs1, dss1 @ dss2, h2))"
  by (induction ps arbitrary: h) (auto simp: Let_def split: prod.splits option.splits)

lemma forEach_keyed_length:
  "length (out_reports (forEach_keyed body ps h)) = length (filter (\<lambda>p. key p \<noteq> None) ps)"
proof (induction ps arbitrary: h)
  case Nil
  then show ?case by simp
next
  case (Cons p ps)
  show ?case
  proof (cases "key p")
    case None
    then show ?thesis
      using Cons [of h] by (auto simp: Let_def split: prod.splits)
  next
    case (Some k)
    then show ?thesis
      using Cons [of "out_store (body p k h)"] by (auto simp: Let_def split: prod.splits)
  qed
qed

lemma object_keylist:
  assumes "is_object node"
  shows "object ext (KeyList keys values) node ctx h =
     (let (e, h1) = object_expectation ext (KeyList keys values) ctx h;
          (ps, dss, h2) = forEach_keyed (check_given ext keys values ctx) (children node) h1
      in (set_children ps (set_expectation e node),
          report_missing ext keys values (given_keys node) node h1 @ concat dss, h2))"
  using assms by (simp add: object_def Let_def split: prod.splits)

lemma object_keylist_at:
  assumes "is_object node" and "children node = ps1 @ p # ps2" and "key p = Some k"
  shows "object ext (KeyList keys values) node ctx h =
     (let (e, h1) = object_expectation ext (KeyList keys values) ctx h;
          (qs1, dss1, h2) = forEach_keyed (check_given ext keys values ctx) ps1 h1;
          (q, ds, h3) = check_given ext keys values ctx p k h2;
          (qs2, dss2, h4) = forEach_keyed (check_given ext keys values ctx) ps2 h3
      in (set_children (qs1 @ q # qs2) (set_expectation e node),
          report_missing ext keys values (given_keys node) node h1
            @ concat dss1 @ ds @ concat dss2, h4))"
  using assms
  by (simp add: object_keylist forEach_keyed_append Let_def split: prod.splits)

text \<open>The fixed-key checker asks the value function for schema keys only, so the
  answer of \<open>lookup_property\<close> for other keys is never used.\<close>

lemma field_expectations_cong:
  "(\<And>k h. k \<in> set keys \<Longrightarrow> values k h = values' k h) \<Longrightarrow>
   field_expectations ext values ctx keys h = field_expectations ext values' ctx keys h"
  by (induction keys arbitrary: h) (auto simp: Let_def split: prod.splits)

lemma check_given_cong:
  "(\<And>k h. k \<in> set keys \<Longrightarrow> values k h = values' k h) \<Longrightarrow>
   check_given ext keys values ctx = check_given ext keys values' ctx"
  by (intro ext) (simp add: check_given_def)

lemma object_keylist_cong:
  assumes "\<And>k h. k \<in> set keys \<Longrightarrow> values k h = values' k h"
  shows "object ext (KeyList keys values) = object ext (KeyList keys values')"
proof -
  have "report_missing ext keys values g n h = report_missing ext keys values' g n h" for g n h
    unfolding report_missing_def using assms by (intro arg_cong[where f = concat] map_cong) auto
  moreover have "field_expectations ext values ctx keys h = field_expectations ext values' ctx keys h"
    for ctx h
    using assms by (rule field_expectations_cong)
  moreover have "check_given ext keys values ctx = check_given ext keys values' ctx" for ctx
    using assms by (rule check_given_cong)
  ultimately show ?thesis
    by (intro ext) (simp add: object_def object_expectation_def Let_def)
qed

text \<open>\<^verbatim>\<open>findIndex\<close> followed by indexing gives the first match.\<close>

lemma findIndex_negative: "findIndex P xs < 0 \<Longrightarrow> findIndex P xs = - 1"
  by (induction xs) (auto simp: Let_def split: if_splits)

lemma at_index_findIndex: "at_index xs (findIndex P xs) = find P xs"
proof (induction xs)
  case Nil
  then show ?case by (simp add: at_index_def)
next
  case (Cons x xs)
  show ?case
  proof (cases "P x")
    case True
    then show ?thesis by (simp add: at_index_def)
  next
    case False
    show ?thesis
    proof (cases "findIndex P xs < 0")
      case True
      with Cons False findIndex_negative[OF True] show ?thesis
        by (auto simp: at_index_def Let_def split: if_splits)
    next
      case nonneg: False
      with Cons False show ?thesis
        by (auto simp: at_index_def Let_def nat_add_distrib split: if_splits)
    qed
  qed
qed

lemma extract_first: "extract' name ps = string_value (at_index ps (findIndex (\<lambda>p. key_value p = Some name) ps))"
  by (simp add: extract'_def at_index_findIndex)






text \<open>The rewriting of \<^verbatim>\<open>pick\<close> is idempotent.\<close>

lemma map_fixed: "map f xs = xs \<Longrightarrow> x \<in> set xs \<Longrightarrow> f x = x"
  by (induction xs) auto

lemma rewrite_property_idem:
  "rewrite_property name (rewrite_property name p) = rewrite_property name p"
  by (simp add: rewrite_property_def)

lemma pick_again:
  "pick v cases (snd (pick v cases h)) = pick v cases h"
  by (auto simp: pick_def rewrite_property_idem fun_eq_iff split: option.splits prod.splits)

lemma pick_again_same_name:
  "strip_namespace v2 = strip_namespace v \<Longrightarrow>
   pick (Some v2) cases (snd (pick (Some v) cases h)) = pick (Some v) cases h"
  by (auto simp: pick_def rewrite_property_idem fun_eq_iff split: option.splits prod.splits)

section \<open>The fixed-key object checker\<close>

text \<open>
  C1. A fixed-key object checker applied to an object node reports, before anything
  else, one missing-property diagnostic for each schema key that is not flagged optional
  or deprecated and is not among the given keys, in schema order, each with default
  severity at the one-character range at the start of the object. The keys reported
  are the required keys minus the given keys, whatever the order of the input; a key
  flagged optional or deprecated is never among them; with distinct schema keys no key
  is reported twice.
\<close>

theorem object_missing_properties:
  assumes "is_object node"
  shows "(let h1 = snd (object_expectation ext (KeyList keys values) ctx h);
              missing = filter (\<lambda>k. \<not> not_required (values k h1) \<and> Some k \<notin> set (given_keys node)) keys
          in out_reports (object ext (KeyList keys values) node ctx h) =
               map (\<lambda>k. \<lparr>message = localize ext ''json.checker.property.missing'' [Str (localeQuote ext k)],
                         anchor = \<lparr>start = start (node_range node), end' = start (node_range node) + 1\<rparr>,
                         severity = Error, info = []\<rparr>) missing
               @ concat (out_reports (forEach_keyed (check_given ext keys values ctx) (children node) h1))
             \<and> set missing = {k \<in> set keys. \<not> not_required (values k h1)} - {k. Some k \<in> set (given_keys node)}
             \<and> (distinct keys \<longrightarrow> distinct missing))"
  using assms
  by (auto simp: object_keylist report_missing_filter missing_diagnostic_def report_def
        Range_create_def Let_def split: prod.splits)

theorem object_missing_properties_witness:
  "is_object example_node
   \<and> out_reports (object example_externals (KeyList example_keys example_values) example_node root_context ()) =
       [\<lparr>message = ''json.checker.property.missing '' @ [CHR 0x22] @ ''a'' @ [CHR 0x22],
         anchor = \<lparr>start = 0, end' = 1\<rparr>, severity = Error, info = []\<rparr>,
        \<lparr>message = ''json.checker.property.deprecated '' @ [CHR 0x22] @ ''c'' @ [CHR 0x22],
         anchor = \<lparr>start = 1, end' = 4\<rparr>, severity = Hint, info = [''deprecated'']\<rparr>,
        \<lparr>message = ''json.checker.property.unknown '' @ [CHR 0x22] @ ''z'' @ [CHR 0x22],
         anchor = \<lparr>start = 10, end' = 13\<rparr>, severity = Warning, info = []\<rparr>]"
proof -
  have obj: "is_object example_node"
    by (simp add: example_node_def)
  show ?thesis
    using obj object_missing_properties [OF obj, of example_externals example_keys example_values root_context "()"]
    by (simp add: Let_def example_defs checker_defs report_missing_filter)
qed

text \<open>
  C2. In a fixed-key object checker applied to an object node, a given key that the
  schema does not declare yields exactly one unknown-property diagnostic of warning
  severity at the key node: the diagnostics of the checker are those of the
  missing-property pass, those of the pairs before, this one diagnostic, and those of
  the pairs after, so there is one per occurrence, in input order; the pair and the
  store are left as they are. For a declared key the checker itself reports at most the
  deprecation hint; the rest comes from the property's checker.
\<close>

theorem object_unknown_properties:
  assumes "is_object node" and "children node = ps1 @ p # ps2" and "key p = Some k"
  shows "(let (e, h1) = object_expectation ext (KeyList keys values) ctx h;
              (qs1, dss1, h2) = forEach_keyed (check_given ext keys values ctx) ps1 h1;
              value = values (svalue k) h2
          in (svalue k \<notin> set keys \<longrightarrow>
                (let (qs2, dss2, h3) = forEach_keyed (check_given ext keys values ctx) ps2 h2
                 in object ext (KeyList keys values) node ctx h =
                      (set_children (qs1 @ p # qs2) (set_expectation e node),
                       report_missing ext keys values (given_keys node) node h1
                         @ concat dss1
                         @ [\<lparr>message = localize ext ''json.checker.property.unknown''
                                            [Str (localeQuote ext (svalue k))],
                             anchor = srange k, severity = Warning, info = []\<rparr>]
                         @ concat dss2,
                       h3)))
             \<and> (svalue k \<in> set keys \<longrightarrow>
                  out_reports (check_given ext keys values ctx p k h2) =
                    (if isComplex value \<and> deprecated_of value = Some True
                     then [deprecated_diagnostic ext k] else [])
                    @ out_reports (checker_of value (prop_node p)
                                     (ctx\<lparr>context' := property_context ctx value (svalue k)\<rparr>) h2)))"
  using assms
  by (simp add: object_keylist_at check_given_def unknown_diagnostic_def report_def Let_def
        truthy_def split: prod.splits)

theorem object_unknown_properties_witness:
  "is_object example_node
   \<and> children example_node =
       [PairNode (Some (str 1 ''c'')) (Some (JsonString (str 6 ''v'')))] @ PairNode (Some (str 10 ''z'')) None # []
   \<and> key (PairNode (Some (str 10 ''z'')) None) = Some (str 10 ''z'')
   \<and> svalue (str 10 ''z'') \<notin> set example_keys
   \<and> out_reports (object example_externals (KeyList example_keys example_values) example_node root_context ()) =
       [\<lparr>message = ''json.checker.property.missing '' @ [CHR 0x22] @ ''a'' @ [CHR 0x22],
         anchor = \<lparr>start = 0, end' = 1\<rparr>, severity = Error, info = []\<rparr>,
        \<lparr>message = ''json.checker.property.deprecated '' @ [CHR 0x22] @ ''c'' @ [CHR 0x22],
         anchor = \<lparr>start = 1, end' = 4\<rparr>, severity = Hint, info = [''deprecated'']\<rparr>,
        \<lparr>message = ''json.checker.property.unknown '' @ [CHR 0x22] @ ''z'' @ [CHR 0x22],
         anchor = \<lparr>start = 10, end' = 13\<rparr>, severity = Warning, info = []\<rparr>]
   \<and> children example_node =
       [] @ PairNode (Some (str 1 ''c'')) (Some (JsonString (str 6 ''v''))) # [PairNode (Some (str 10 ''z'')) None]
   \<and> key (PairNode (Some (str 1 ''c'')) (Some (JsonString (str 6 ''v'')))) = Some (str 1 ''c'')
   \<and> svalue (str 1 ''c'') \<in> set example_keys
   \<and> out_reports (check_given example_externals example_keys example_values root_context
                     (PairNode (Some (str 1 ''c'')) (Some (JsonString (str 6 ''v'')))) (str 1 ''c'') ()) =
       [\<lparr>message = ''json.checker.property.deprecated '' @ [CHR 0x22] @ ''c'' @ [CHR 0x22],
         anchor = \<lparr>start = 1, end' = 4\<rparr>, severity = Hint, info = [''deprecated'']\<rparr>]"
proof -
  have obj: "is_object example_node"
    by (simp add: example_node_def)
  have ch1: "children example_node =
       [PairNode (Some (str 1 ''c'')) (Some (JsonString (str 6 ''v'')))] @ PairNode (Some (str 10 ''z'')) None # []"
    by (simp add: example_node_def)
  have ch2: "children example_node =
       [] @ PairNode (Some (str 1 ''c'')) (Some (JsonString (str 6 ''v''))) # [PairNode (Some (str 10 ''z'')) None]"
    by (simp add: example_node_def)
  have k1: "key (PairNode (Some (str 10 ''z'')) None) = Some (str 10 ''z'')"
    by simp
  have k2: "key (PairNode (Some (str 1 ''c'')) (Some (JsonString (str 6 ''v'')))) = Some (str 1 ''c'')"
    by simp
  show ?thesis
    using obj ch1 ch2
      object_unknown_properties [OF obj ch1 k1, of example_externals example_keys example_values root_context "()"]
      object_unknown_properties [OF obj ch2 k2, of example_externals example_keys example_values root_context "()"]
    by (simp add: Let_def example_defs checker_defs report_missing_filter)
qed

text \<open>
  C7. In a fixed-key object checker applied to an object node, a given key that the
  schema declares is validated by its property's checker on the value node, or on a
  synthetic null node when the pair has no value, under the extended documentation
  path; the key node gets its hover text. When the property is flagged deprecated the
  checker reports, before that, exactly one deprecated-usage diagnostic of Hint
  severity with the tag \<^verbatim>\<open>deprecated\<close> at the key node; nothing else depends on the
  flag.
\<close>

theorem object_deprecated_properties:
  assumes "is_object node" and "children node = ps1 @ p # ps2" and "key p = Some k"
    and "svalue k \<in> set keys"
  shows "(let (e, h1) = object_expectation ext (KeyList keys values) ctx h;
              (qs1, dss1, h2) = forEach_keyed (check_given ext keys values ctx) ps1 h1;
              value = values (svalue k) h2;
              path = property_context ctx value (svalue k);
              (propNode, ds, h3) =
                 checker_of value
                   (case pvalue p of Some v \<Rightarrow> v | None \<Rightarrow> JsonNull \<lparr>start = 0, end' = 0\<rparr> None)
                   (ctx\<lparr>context' := path\<rparr>) h2;
              q = PairNode
                    (Some (k\<lparr>hover := Some (hover_text path (node_expectation propNode)
                                                (localize ext (''json.doc.'' @ path) []))\<rparr>))
                    (map_option (\<lambda>v. propNode) (pvalue p));
              (qs2, dss2, h4) = forEach_keyed (check_given ext keys values ctx) ps2 h3
          in object ext (KeyList keys values) node ctx h =
               (set_children (qs1 @ q # qs2) (set_expectation e node),
                report_missing ext keys values (given_keys node) node h1
                  @ concat dss1
                  @ (if isComplex value \<and> deprecated_of value = Some True
                     then [\<lparr>message = localize ext ''json.checker.property.deprecated''
                                         [Str (localeQuote ext (svalue k))],
                            anchor = srange k, severity = Hint, info = [''deprecated'']\<rparr>]
                     else [])
                  @ ds
                  @ concat dss2,
                h4))"
proof -
  have placeholder:
    "(case pvalue p of Some v \<Rightarrow> v | None \<Rightarrow> JsonNull \<lparr>start = 0, end' = 0\<rparr> None) = prop_node p"
    by (cases "pvalue p") (simp_all add: prop_node_def Range_create_def)
  show ?thesis
    unfolding placeholder using assms
    by (simp add: object_keylist_at check_given_def deprecated_diagnostic_def report_def Let_def
          truthy_def split: prod.splits)
qed

theorem object_deprecated_properties_witness:
  "is_object example_node
   \<and> children example_node =
       [] @ PairNode (Some (str 1 ''c'')) (Some (JsonString (str 6 ''v''))) # [PairNode (Some (str 10 ''z'')) None]
   \<and> key (PairNode (Some (str 1 ''c'')) (Some (JsonString (str 6 ''v'')))) = Some (str 1 ''c'')
   \<and> svalue (str 1 ''c'') \<in> set example_keys
   \<and> object example_externals (KeyList example_keys example_values) example_node root_context () =
       (JsonObject \<lparr>start = 0, end' = 20\<rparr>
          (Some [JsonExpectation ''json:object'' ''Object''
                   (Some [JsonField ''a'' (Some [JsonExpectation ''json:string'' ''String'' None None]) False False,
                          JsonField ''b'' (Some [JsonExpectation ''json:string'' ''String'' None None]) True False,
                          JsonField ''c'' (Some [JsonExpectation ''json:string'' ''String'' None None]) True True])
                   None])
          [PairNode
             (Some \<lparr>srange = \<lparr>start = 1, end' = 4\<rparr>, svalue = ''c'', sexpectation = None,
                     hover = Some (''```typescript'' @ [CHR 0x0A] @ ''root.c: String'' @ [CHR 0x0A] @ ''```'')\<rparr>)
             (Some (JsonString
                \<lparr>srange = \<lparr>start = 6, end' = 9\<rparr>, svalue = ''v'',
                  sexpectation = Some [JsonExpectation ''json:string'' ''String'' None None],
                  hover = None\<rparr>)),
           PairNode (Some (str 10 ''z'')) None],
        [\<lparr>message = ''json.checker.property.missing '' @ [CHR 0x22] @ ''a'' @ [CHR 0x22],
          anchor = \<lparr>start = 0, end' = 1\<rparr>, severity = Error, info = []\<rparr>,
         \<lparr>message = ''json.checker.property.deprecated '' @ [CHR 0x22] @ ''c'' @ [CHR 0x22],
          anchor = \<lparr>start = 1, end' = 4\<rparr>, severity = Hint, info = [''deprecated'']\<rparr>,
         \<lparr>message = ''json.checker.property.unknown '' @ [CHR 0x22] @ ''z'' @ [CHR 0x22],
          anchor = \<lparr>start = 10, end' = 13\<rparr>, severity = Warning, info = []\<rparr>],
        ())"
proof -
  have obj: "is_object example_node"
    by (simp add: example_node_def)
  have ch: "children example_node =
       [] @ PairNode (Some (str 1 ''c'')) (Some (JsonString (str 6 ''v''))) # [PairNode (Some (str 10 ''z'')) None]"
    by (simp add: example_node_def)
  have k: "key (PairNode (Some (str 1 ''c'')) (Some (JsonString (str 6 ''v'')))) = Some (str 1 ''c'')"
    by simp
  have decl: "svalue (str 1 ''c'') \<in> set example_keys"
    by (simp add: str_def example_keys_def)
  show ?thesis
    using obj ch decl
      object_deprecated_properties [OF obj ch k decl, of example_externals example_values root_context "()"]
    by (simp add: Let_def example_defs checker_defs report_missing_filter)
qed

section \<open>Nodes that are not objects\<close>

text \<open>
  C3. An object checker (of any of the three shapes) applied to a node that is not an
  object writes the expectation slot, reports exactly one type-mismatch diagnostic of
  default severity at the node, and does nothing else with the node. The call returns
  normally, so the checker of the enclosing object goes on: when the node is the value
  of a declared property whose checker is an object checker, the pair contributes that
  one diagnostic and the pairs after it are visited as usual.
\<close>

theorem object_type_mismatch:
  assumes "\<not> is_object node"
  shows "object ext args node ctx h =
           (set_expectation (fst (object_expectation ext args ctx h)) node,
            [\<lparr>message = localize ext ''expected'' [Str (localize ext ''object'' [])],
              anchor = node_range node, severity = Error, info = []\<rparr>],
            snd (object_expectation ext args ctx h))
         \<and> (key p = Some k \<and> svalue k \<in> set keys \<and> values (svalue k) h = Bare (object ext args)
              \<and> pvalue p = Some node \<longrightarrow>
             (let path = context' ctx @ ''.'' @ svalue k;
                  (e, h1) = object_expectation ext args (ctx\<lparr>context' := path\<rparr>) h;
                  (qs, dss, h2) = forEach_keyed (check_given ext keys values ctx) ps h1
              in forEach_keyed (check_given ext keys values ctx) (p # ps) h =
                   (PairNode (Some (k\<lparr>hover := Some (hover_text path e (localize ext (''json.doc.'' @ path) []))\<rparr>))
                      (Some (set_expectation e node)) # qs,
                    [\<lparr>message = localize ext ''expected'' [Str (localize ext ''object'' [])],
                      anchor = node_range node, severity = Error, info = []\<rparr>] # dss,
                    h2)))"
proof -
  have call: "object ext args node c s =
           (set_expectation (fst (object_expectation ext args c s)) node,
            [\<lparr>message = localize ext ''expected'' [Str (localize ext ''object'' [])],
              anchor = node_range node, severity = Error, info = []\<rparr>],
            snd (object_expectation ext args c s))" for c s
    using assms by (simp add: object_def type_mismatch_def report_def split: prod.splits)
  show ?thesis
    by (auto simp: call check_given_def property_context_def prop_node_def Let_def
          split: prod.splits)
qed

theorem object_type_mismatch_witness:
  "\<not> is_object (JsonString (str 6 ''v''))
   \<and> object example_externals (KeyList example_keys example_values) (JsonString (str 6 ''v'')) root_context () =
       (JsonString
          \<lparr>srange = \<lparr>start = 6, end' = 9\<rparr>, svalue = ''v'',
            sexpectation =
              Some [JsonExpectation ''json:object'' ''Object''
                      (Some [JsonField ''a'' (Some [JsonExpectation ''json:string'' ''String'' None None]) False False,
                             JsonField ''b'' (Some [JsonExpectation ''json:string'' ''String'' None None]) True False,
                             JsonField ''c'' (Some [JsonExpectation ''json:string'' ''String'' None None]) True True])
                      None],
            hover = None\<rparr>,
        [\<lparr>message = ''expected object'', anchor = \<lparr>start = 6, end' = 9\<rparr>, severity = Error, info = []\<rparr>],
        ())
   \<and> key (PairNode (Some (str 1 ''c'')) (Some (JsonString (str 6 ''v'')))) = Some (str 1 ''c'')
   \<and> svalue (str 1 ''c'') \<in> set [''c'']
   \<and> nested_values (svalue (str 1 ''c'')) () = Bare (object example_externals NoArgs)
   \<and> pvalue (PairNode (Some (str 1 ''c'')) (Some (JsonString (str 6 ''v'')))) = Some (JsonString (str 6 ''v''))
   \<and> out_reports (forEach_keyed (check_given example_externals [''c''] nested_values root_context)
                     [PairNode (Some (str 1 ''c'')) (Some (JsonString (str 6 ''v''))),
                      PairNode (Some (str 10 ''z'')) None] ()) =
       [[\<lparr>message = ''expected object'', anchor = \<lparr>start = 6, end' = 9\<rparr>, severity = Error, info = []\<rparr>],
        [\<lparr>message = ''json.checker.property.unknown '' @ [CHR 0x22] @ ''z'' @ [CHR 0x22],
          anchor = \<lparr>start = 10, end' = 13\<rparr>, severity = Warning, info = []\<rparr>]]"
proof -
  have no: "\<not> is_object (JsonString (str 6 ''v''))"
    by simp
  have nested: "nested_values (svalue (str 1 ''c'')) () = Bare (object example_externals NoArgs)"
    by (simp add: nested_values_def)
  show ?thesis
    using no nested
      object_type_mismatch [OF no, of example_externals "KeyList example_keys example_values" root_context "()"
        "PairNode None None" "str 0 []" "[]" example_values "[]"]
      object_type_mismatch [OF no, of example_externals NoArgs root_context "()"
        "PairNode (Some (str 1 ''c'')) (Some (JsonString (str 6 ''v'')))" "str 1 ''c''" "[''c'']"
        nested_values "[PairNode (Some (str 10 ''z'')) None]"]
    by (simp add: Let_def example_defs checker_defs)
qed

section \<open>\<^verbatim>\<open>dispatch\<close>\<close>

text \<open>
  C6. The checker returned by \<^verbatim>\<open>dispatch(keyName, selector)\<close>, applied to a node that
  is not an object, reports exactly one type-mismatch diagnostic and leaves node and
  store as they are, whatever the selector (it is not called). Applied to an object
  node, it passes to the selector the string value of the first pair whose key is
  \<^verbatim>\<open>keyName\<close> when the value of that pair is a string node, and nothing otherwise
  (no such pair, no value, or a value that is not a string), together with all the
  pairs; the checker the selector returns is applied to the whole node under the same
  context.
\<close>

theorem dispatch_selects:
  "(\<not> is_object node \<longrightarrow>
      dispatch ext keyName values node ctx h =
        (node, [\<lparr>message = localize ext ''expected'' [Str (localize ext ''object'' [])],
                 anchor = node_range node, severity = Error, info = []\<rparr>], h))
   \<and> (is_object node \<longrightarrow>
      dispatch ext keyName values node ctx h =
        (let value = (case find (\<lambda>p. key_value p = Some keyName) (children node) of
                        Some (PairNode k (Some (JsonString s))) \<Rightarrow> Some (svalue s)
                      | _ \<Rightarrow> None);
             (checker, h1) = values value (children node) h
         in checker node ctx h1))"
proof -
  have sv: "string_value d = (case d of Some (PairNode k (Some (JsonString s))) \<Rightarrow> Some (svalue s) | _ \<Rightarrow> None)"
    for d
    by (cases d rule: string_value.cases) simp_all
  show ?thesis
    by (simp add: dispatch_def type_mismatch_def report_def at_index_findIndex sv)
qed

theorem dispatch_selects_witness:
  "\<not> is_object (JsonNull (Range_create 3 7) None)
   \<and> dispatch example_externals ''type'' example_selector (JsonNull (Range_create 3 7) None) root_context () =
       (JsonNull (Range_create 3 7) None,
        [\<lparr>message = ''expected object'', anchor = \<lparr>start = 3, end' = 7\<rparr>, severity = Error, info = []\<rparr>],
        ())
   \<and> is_object typed_node
   \<and> out_reports (dispatch example_externals ''type'' example_selector typed_node root_context ()) =
       [\<lparr>message = ''json.checker.property.missing '' @ [CHR 0x22] @ ''x'' @ [CHR 0x22],
         anchor = \<lparr>start = 0, end' = 1\<rparr>, severity = Error, info = []\<rparr>]"
proof -
  have obj: "is_object typed_node"
    by (simp add: typed_node_def)
  show ?thesis
    using obj
      dispatch_selects [of "JsonNull (Range_create 3 7) None" example_externals "''type''" example_selector
        root_context "()"]
      dispatch_selects [of typed_node example_externals "''type''" example_selector root_context "()"]
    by (simp add: Let_def example_defs checker_defs record'_def object_def strip_namespace_def
          when'_def report_missing_filter)
qed

section \<open>\<^verbatim>\<open>having\<close>\<close>





section \<open>\<^verbatim>\<open>pick\<close>\<close>



text \<open>
  C9. With a value whose stripped name has an entry in \<^verbatim>\<open>cases\<close>, \<^verbatim>\<open>pick\<close>
  returns the record object of that entry itself, and that object is changed in place:
  each entry is overwritten with the complex property made of its checker, its optional
  flag, its deprecated flag and the stripped name as context. No other record changes.
  Unless every entry already had that form, the store after the call differs from the
  store before.
\<close>

theorem pick_in_place:
  assumes "map_of cases (strip_namespace v) = Some a"
  shows "fst (pick (Some v) cases h) = Stored a
     \<and> snd (pick (Some v) cases h) a =
         map (\<lambda>(k, p). (k, Complex (checker_of p) (opt_of p) (deprecated_of p) (Some (strip_namespace v)))) (h a)
     \<and> (\<forall>b. b \<noteq> a \<longrightarrow> snd (pick (Some v) cases h) b = h b)
     \<and> ((\<exists>(k, p) \<in> set (h a).
            p \<noteq> Complex (checker_of p) (opt_of p) (deprecated_of p) (Some (strip_namespace v)))
          \<longrightarrow> snd (pick (Some v) cases h) \<noteq> h)"
  using assms
  apply (simp add: pick_def rewrite_property_def)
  apply (auto simp: fun_eq_iff split: prod.splits dest!: map_fixed)
  done

theorem pick_in_place_witness:
  "map_of [(''foo'', 0)] (strip_namespace ''minecraft:foo'') = Some 0
   \<and> fst (pick (Some ''minecraft:foo'') [(''foo'', 0)] shared_store) = Stored 0
   \<and> snd (pick (Some ''minecraft:foo'') [(''foo'', 0)] shared_store) 0 = [(''x'', Complex 0 None None (Some ''foo''))]
   \<and> snd (pick (Some ''minecraft:foo'') [(''foo'', 0)] shared_store) 1 = shared_store 1
   \<and> shared_store 0 = [(''x'', Bare 0)]
   \<and> snd (pick (Some ''minecraft:foo'') [(''foo'', 0)] shared_store) \<noteq> shared_store"
proof -
  have m: "map_of [(''foo'', 0::nat)] (strip_namespace ''minecraft:foo'') = Some 0"
    by (simp add: strip_namespace_def)
  have changed: "\<exists>(k, p) \<in> set (shared_store 0).
      p \<noteq> Complex (checker_of p) (opt_of p) (deprecated_of p) (Some (strip_namespace ''minecraft:foo''))"
    by (simp add: shared_store_def)
  show ?thesis
    using m changed pick_in_place [OF m, of shared_store]
    by (simp add: shared_store_def strip_namespace_def)
qed

section \<open>Running a checker twice\<close>


section \<open>Stable checkers\<close>

lemma similar_refl [simp]: "similar h h"
  by (simp add: similar_def)


lemma similar_sym: "similar h1 h2 \<Longrightarrow> similar h2 h1"
  by (simp add: similar_def)

lemma related_refl [simp]: "related A h h"
  by (simp add: related_def)



text \<open>\<^verbatim>\<open>pick\<close> on similar stores.\<close>

lemma rewrite_property_similar:
  "(checker_of p, opt_of p, deprecated_of p) = (checker_of q, opt_of q, deprecated_of q) \<Longrightarrow>
   rewrite_property name p = rewrite_property name q"
  by (simp add: rewrite_property_def)

lemma rewrite_property_parts [simp]:
  "checker_of (rewrite_property name p) = checker_of p"
  "opt_of (rewrite_property name p) = opt_of p"
  "deprecated_of (rewrite_property name p) = deprecated_of p"
  "context_of (rewrite_property name p) = Some name"
  "isComplex (rewrite_property name p)"
  by (simp_all add: rewrite_property_def)







lemma related_similar: "related A h h' \<Longrightarrow> similar h h'"
  by (simp add: related_def)


























end
